theory Spec2Isabelle
  imports Complex_Main
begin

section \<open>JavaScript values and objects\<close>

text \<open>
  The records of \<^verbatim>\<open>data.json\<close> and the arguments handed to the resolvers are flat
  JavaScript objects whose fields hold primitive values. A finite number is the rational
  that the double denotes, so that \<open>-0\<close> and \<open>0\<close> are one value, as \<^verbatim>\<open>===\<close> has them;
  \<open>JInf neg\<close> is \<open>Infinity\<close>, negative when \<open>neg\<close> holds; \<open>NaN\<close> is a value of its own. A
  missing field reads as \<^verbatim>\<open>undefined\<close>, which is \<open>None\<close>.

  A string is the list of its code units, one \<open>char\<close> for each: the strings of the model
  are those whose code units lie below 256, and \<open>CHR 0xA0\<close> is the no-break space
  U+00A0.
\<close>

datatype jsval = JNull | JBool bool | JNum rat | JInf bool | JNaN | JStr string

type_synonym obj = "string \<Rightarrow> jsval option"

text \<open>An object that wraps records under a key, as in \<^verbatim>\<open>{ userCreated: user }\<close>.\<close>

type_synonym payload = "string \<Rightarrow> obj option"

datatype error = IOError | TypeError | Error string

text \<open>\<^verbatim>\<open>a === b\<close> on primitive values: same type and same value, and \<open>NaN\<close> equals nothing.\<close>

fun strict_eq :: "jsval option \<Rightarrow> jsval option \<Rightarrow> bool" where
  "strict_eq (Some JNaN) b = False"
| "strict_eq a (Some JNaN) = False"
| "strict_eq a b = (a = b)"

text \<open>The truthiness test of \<^verbatim>\<open>c ? x : y\<close>.\<close>

fun truthy :: "jsval option \<Rightarrow> bool" where
  "truthy None = False"
| "truthy (Some JNull) = False"
| "truthy (Some (JBool b)) = b"
| "truthy (Some (JNum n)) = (n \<noteq> 0)"
| "truthy (Some (JInf neg)) = True"
| "truthy (Some JNaN) = False"
| "truthy (Some (JStr s)) = (s \<noteq> [])"

text \<open>Object spread \<^verbatim>\<open>{ ...a, ...b }\<close>: the fields of \<open>b\<close> win.\<close>

definition spread :: "obj \<Rightarrow> obj \<Rightarrow> obj" where
  "spread a b = a ++ b"

subsection \<open>\<^verbatim>\<open>String(n)\<close> and \<^verbatim>\<open>parseInt(s)\<close>\<close>

fun String_num :: "nat \<Rightarrow> string" where
  "String_num n =
     (if n < 10 then [char_of (48 + n)]
      else String_num (n div 10) @ [char_of (48 + n mod 10)])"

declare String_num.simps [simp del]

text \<open>
  The white space and line terminators that \<^verbatim>\<open>parseInt\<close> trims: among the code units
  below 256 these are tab, line feed, vertical tab, form feed, carriage return
  (9 to 13), the space (32) and the no-break space (160). The others (U+1680,
  U+2000 to U+200A, U+2028, U+2029, U+202F, U+205F, U+3000, U+FEFF) lie above 255.
\<close>

definition is_ws :: "char \<Rightarrow> bool" where
  "is_ws c =
     (let n = (of_char c :: nat) in n = 32 \<or> (9 \<le> n \<and> n \<le> 13) \<or> n = 160)"

definition digit_val :: "char \<Rightarrow> nat option" where
  "digit_val c =
     (let n = (of_char c :: nat) in
      if 48 \<le> n \<and> n \<le> 57 then Some (n - 48)
      else if 97 \<le> n \<and> n \<le> 122 then Some (n - 87)
      else if 65 \<le> n \<and> n \<le> 90 then Some (n - 55)
      else None)"

text \<open>The longest prefix of digits below the radix; \<open>None\<close> while no digit has been read.\<close>

fun parse_digits :: "nat \<Rightarrow> string \<Rightarrow> nat option \<Rightarrow> nat option" where
  "parse_digits r [] acc = acc"
| "parse_digits r (c # cs) acc =
     (case digit_val c of
        None \<Rightarrow> acc
      | Some d \<Rightarrow>
          if d < r
          then parse_digits r cs (Some (r * (case acc of None \<Rightarrow> 0 | Some a \<Rightarrow> a) + d))
          else acc)"

fun strip_sign :: "string \<Rightarrow> bool \<times> string" where
  "strip_sign [] = (False, [])"
| "strip_sign (c # cs) =
     (if c = CHR ''-'' then (True, cs)
      else if c = CHR ''+'' then (False, cs)
      else (False, c # cs))"

fun strip_radix :: "string \<Rightarrow> nat \<times> string" where
  "strip_radix (c # d # cs) =
     (if c = CHR ''0'' \<and> (d = CHR ''x'' \<or> d = CHR ''X'') then (16, cs) else (10, c # d # cs))"
| "strip_radix cs = (10, cs)"

text \<open>The number of binary digits of \<open>n\<close>.\<close>

fun bit_length :: "nat \<Rightarrow> nat" where
  "bit_length n = (if n = 0 then 0 else Suc (bit_length (n div 2)))"

declare bit_length.simps [simp del]

text \<open>
  The Number value of a natural number: the double nearest to it, the even significand
  on a tie. A double has 53 significant binary digits, so the numbers below \<open>2^53\<close> are
  doubles; a larger one loses its last \<open>e\<close> digits, rounded. What rounds to \<open>2^1024\<close> or
  beyond is \<open>Infinity\<close>, here \<open>None\<close>.
\<close>

definition to_double :: "nat \<Rightarrow> nat option" where
  "to_double n =
     (if n < 2 ^ 53 then Some n
      else
        let e = bit_length n - 53;
            q = n div 2 ^ e;
            r = n mod 2 ^ e;
            half = 2 ^ (e - 1);
            q' = (if half < r \<or> (r = half \<and> odd q) then q + 1 else q)
        in if 2 ^ 1024 \<le> q' * 2 ^ e then None else Some (q' * 2 ^ e))"

text \<open>
  \<^verbatim>\<open>parseInt(s)\<close> with no radix argument: leading white space and a sign are skipped, a
  \<^verbatim>\<open>0x\<close> prefix selects base 16, and the digits that follow are read as far as they go;
  with no digit the result is \<open>NaN\<close>, otherwise the Number value of the integer read,
  with its sign.
\<close>

definition parseInt :: "string \<Rightarrow> jsval" where
  "parseInt s =
     (case strip_sign (dropWhile is_ws s) of
        (neg, t) \<Rightarrow>
          (case strip_radix t of
             (radix, u) \<Rightarrow>
               (case parse_digits radix u None of
                  None \<Rightarrow> JNaN
                | Some n \<Rightarrow>
                    (case to_double n of
                       None \<Rightarrow> JInf neg
                     | Some m \<Rightarrow> JNum (if neg then - of_nat m else of_nat m)))))"

subsection \<open>Array methods\<close>

text \<open>\<^verbatim>\<open>xs.findIndex(p)\<close>: the first index whose element satisfies \<open>p\<close>, or \<open>-1\<close>.\<close>

fun findIndex_from :: "('a \<Rightarrow> bool) \<Rightarrow> 'a list \<Rightarrow> int \<Rightarrow> int" where
  "findIndex_from p [] i = - 1"
| "findIndex_from p (x # xs) i = (if p x then i else findIndex_from p xs (i + 1))"

definition findIndex :: "('a \<Rightarrow> bool) \<Rightarrow> 'a list \<Rightarrow> int" where
  "findIndex p xs = findIndex_from p xs 0"

text \<open>\<^verbatim>\<open>xs.splice(i, n)\<close> as far as the array is concerned: \<open>n\<close> elements go, from index \<open>i\<close>.\<close>

definition splice :: "nat \<Rightarrow> nat \<Rightarrow> 'a list \<Rightarrow> 'a list" where
  "splice i n xs = take i xs @ drop (i + n) xs"

section \<open>The store and the event bus\<close>

text \<open>
  \<^verbatim>\<open>data.json\<close> parses to a document of four arrays. The program opens the file for
  reading only: \<^verbatim>\<open>readData\<close> is its one access, and every resolver starts from a
  fresh parse. The world a resolver runs in is the file's content (\<open>None\<close> when it is
  missing or is not JSON) and the list of calls of \<^verbatim>\<open>pubsub.publish\<close> made so far,
  oldest first.
\<close>

record document =
  users :: "obj list"
  events :: "obj list"
  locations :: "obj list"
  participants :: "obj list"

record world =
  data_json :: "document option"
  published :: "(string \<times> payload) list"

definition readData :: "world \<Rightarrow> error + document" where
  "readData w = (case data_json w of None \<Rightarrow> Inl IOError | Some d \<Rightarrow> Inr d)"

definition publish :: "string \<Rightarrow> payload \<Rightarrow> world \<Rightarrow> world" where
  "publish topic p w = w\<lparr>published := published w @ [(topic, p)]\<rparr>"

text \<open>
  What a resolver leaves behind: the value it returns or the error it throws, the object
  \<^verbatim>\<open>jsonData\<close> it worked on as it stands when the resolver ends (\<open>None\<close> when the read
  failed), and the world afterwards.
\<close>

record 'a outcome =
  returned :: "error + 'a"
  jsonData :: "document option"
  after :: world


section \<open>The input types of the schema\<close>

text \<open>
  The GraphQL layer hands a resolver only arguments that fit the declared input type:
  no field beyond the declared ones, a required field (\<^verbatim>\<open>!\<close>) present and not null, an
  optional one absent, null or of its type. \<^verbatim>\<open>String\<close> and \<^verbatim>\<open>ID\<close> arrive as strings,
  \<^verbatim>\<open>Float\<close> as a number.
\<close>

datatype scalar = TString | TID | TFloat

type_synonym input_type = "(string \<times> scalar \<times> bool) list"

definition createUserInput :: input_type where
  "createUserInput = [(''username'', TString, True), (''email'', TString, True)]"

definition updateUserInput :: input_type where
  "updateUserInput = [(''username'', TString, False), (''email'', TString, False)]"

definition createEventInput :: input_type where
  "createEventInput =
     [(''title'', TString, True), (''desc'', TString, True), (''date'', TString, True),
      (''from'', TString, False), (''to'', TString, False),
      (''location_id'', TID, False), (''user_id'', TID, False)]"

definition updateEventInput :: input_type where
  "updateEventInput =
     [(''title'', TString, False), (''desc'', TString, False), (''date'', TString, False),
      (''from'', TString, False), (''to'', TString, False),
      (''location_id'', TID, False), (''user_id'', TID, False)]"

definition createLocationInput :: input_type where
  "createLocationInput =
     [(''name'', TString, True), (''desc'', TString, True),
      (''lat'', TFloat, True), (''lng'', TFloat, True)]"

definition updateLocationInput :: input_type where
  "updateLocationInput =
     [(''id'', TID, False), (''name'', TString, False), (''desc'', TString, False),
      (''lat'', TFloat, False), (''lng'', TFloat, False)]"

definition createParticipantInput :: input_type where
  "createParticipantInput = [(''user_id'', TID, True), (''event_id'', TID, True)]"

definition updateParticipantInput :: input_type where
  "updateParticipantInput =
     [(''id'', TID, False), (''user_id'', TID, False), (''event_id'', TID, False)]"

fun has_scalar :: "scalar \<Rightarrow> jsval \<Rightarrow> bool" where
  "has_scalar TString v = (case v of JStr s \<Rightarrow> True | _ \<Rightarrow> False)"
| "has_scalar TID v = (case v of JStr s \<Rightarrow> True | _ \<Rightarrow> False)"
| "has_scalar TFloat v = (case v of JNum n \<Rightarrow> True | _ \<Rightarrow> False)"

fun field_ok :: "obj \<Rightarrow> string \<times> scalar \<times> bool \<Rightarrow> bool" where
  "field_ok data (k, t, required) =
     (case data k of
        None \<Rightarrow> \<not> required
      | Some JNull \<Rightarrow> \<not> required
      | Some v \<Rightarrow> has_scalar t v)"

definition conforms :: "input_type \<Rightarrow> obj \<Rightarrow> bool" where
  "conforms ty data = (dom data \<subseteq> set (map fst ty) \<and> list_all (field_ok data) ty)"

section \<open>Resolvers\<close>

subsection \<open>Query\<close>

definition Query_users :: "world \<Rightarrow> error + obj list" where
  "Query_users w = (case readData w of Inl e \<Rightarrow> Inl e | Inr d \<Rightarrow> Inr (users d))"

definition Query_user :: "string \<Rightarrow> world \<Rightarrow> error + obj option" where
  "Query_user id' w =
     (case readData w of
        Inl e \<Rightarrow> Inl e
      | Inr d \<Rightarrow> Inr (find (\<lambda>user. strict_eq (user ''id'') (Some (JStr id'))) (users d)))"

definition Query_events :: "world \<Rightarrow> error + obj list" where
  "Query_events w = (case readData w of Inl e \<Rightarrow> Inl e | Inr d \<Rightarrow> Inr (events d))"

definition Query_event :: "string \<Rightarrow> world \<Rightarrow> error + obj option" where
  "Query_event id' w =
     (case readData w of
        Inl e \<Rightarrow> Inl e
      | Inr d \<Rightarrow> Inr (find (\<lambda>event. strict_eq (event ''id'') (Some (JStr id'))) (events d)))"

definition Query_locations :: "world \<Rightarrow> error + obj list" where
  "Query_locations w = (case readData w of Inl e \<Rightarrow> Inl e | Inr d \<Rightarrow> Inr (locations d))"

definition Query_location :: "string \<Rightarrow> world \<Rightarrow> error + obj option" where
  "Query_location id' w =
     (case readData w of
        Inl e \<Rightarrow> Inl e
      | Inr d \<Rightarrow> Inr (find (\<lambda>location. strict_eq (location ''id'') (Some (JStr id'))) (locations d)))"

definition Query_participants :: "world \<Rightarrow> error + obj list" where
  "Query_participants w = (case readData w of Inl e \<Rightarrow> Inl e | Inr d \<Rightarrow> Inr (participants d))"

definition Query_participant :: "string \<Rightarrow> world \<Rightarrow> error + obj option" where
  "Query_participant id' w =
     (case readData w of
        Inl e \<Rightarrow> Inl e
      | Inr d \<Rightarrow> Inr (find (\<lambda>participant. strict_eq (participant ''id'') (Some (JStr id'))) (participants d)))"

subsection \<open>Mutation\<close>

text \<open>
  Each mutation parses the file, changes the parsed object and publishes; none of them
  writes the file. \<^verbatim>\<open>nanoid()\<close> draws a random string: the resolvers that call it take
  the string drawn as their first argument.
\<close>

definition addUser :: "obj \<Rightarrow> world \<Rightarrow> obj outcome" where
  "addUser data w =
     (case readData w of
        Inl e \<Rightarrow> \<lparr>returned = Inl e, jsonData = None, after = w\<rparr>
      | Inr d \<Rightarrow>
          let user = spread [''id'' \<mapsto> JStr (String_num (length (users d) + 1))] data
          in \<lparr>returned = Inr user,
              jsonData = Some (d\<lparr>users := users d @ [user]\<rparr>),
              after = publish ''userCreated'' [''userCreated'' \<mapsto> user] w\<rparr>)"

definition updateUser :: "string \<Rightarrow> obj \<Rightarrow> world \<Rightarrow> obj outcome" where
  "updateUser id' data w =
     (case readData w of
        Inl e \<Rightarrow> \<lparr>returned = Inl e, jsonData = None, after = w\<rparr>
      | Inr d \<Rightarrow>
          let user_index = findIndex (\<lambda>user. strict_eq (user ''id'') (Some (parseInt id'))) (users d)
          in if user_index = - 1
             then \<lparr>returned = Inl (Error ''User not found''), jsonData = Some d, after = w\<rparr>
             else
               let updated_user = spread (users d ! nat user_index) data
               in \<lparr>returned = Inr updated_user,
                   jsonData = Some (d\<lparr>users := (users d)[nat user_index := updated_user]\<rparr>),
                   after = publish ''userUpdated'' [''userUpdated'' \<mapsto> updated_user] w\<rparr>)"

definition deleteUser :: "string \<Rightarrow> world \<Rightarrow> obj outcome" where
  "deleteUser id' w =
     (case readData w of
        Inl e \<Rightarrow> \<lparr>returned = Inl e, jsonData = None, after = w\<rparr>
      | Inr d \<Rightarrow>
          let user_index = findIndex (\<lambda>user. strict_eq (user ''id'') (Some (parseInt id'))) (users d)
          in if user_index = - 1
             then \<lparr>returned = Inl (Error ''User not found''), jsonData = Some d, after = w\<rparr>
             else
               let user = users d ! nat user_index
               in \<lparr>returned = Inr user,
                   jsonData = Some (d\<lparr>users := splice (nat user_index) 1 (users d)\<rparr>),
                   after = publish ''userDeleted'' [''userDeleted'' \<mapsto> user] w\<rparr>)"

definition deleteAllUsers :: "world \<Rightarrow> obj outcome" where
  "deleteAllUsers w =
     (case readData w of
        Inl e \<Rightarrow> \<lparr>returned = Inl e, jsonData = None, after = w\<rparr>
      | Inr d \<Rightarrow>
          let length' = length (users d)
          in \<lparr>returned = Inr [''count'' \<mapsto> JNum (of_nat length')],
              jsonData = Some (d\<lparr>users := splice 0 length' (users d)\<rparr>),
              after = w\<rparr>)"

definition addEvent :: "string \<Rightarrow> obj \<Rightarrow> world \<Rightarrow> obj outcome" where
  "addEvent nanoid data w =
     (case readData w of
        Inl e \<Rightarrow> \<lparr>returned = Inl e, jsonData = None, after = w\<rparr>
      | Inr d \<Rightarrow>
          let event = spread [''id'' \<mapsto> JStr nanoid] data
          in \<lparr>returned = Inr event,
              jsonData = Some (d\<lparr>events := events d @ [event]\<rparr>),
              after = publish ''eventCreated'' [''eventCreated'' \<mapsto> event] w\<rparr>)"

definition updateEvent :: "string \<Rightarrow> obj \<Rightarrow> world \<Rightarrow> obj outcome" where
  "updateEvent id' data w =
     (case readData w of
        Inl e \<Rightarrow> \<lparr>returned = Inl e, jsonData = None, after = w\<rparr>
      | Inr d \<Rightarrow>
          let event_index = findIndex (\<lambda>event. strict_eq (event ''id'') (Some (parseInt id'))) (events d)
          in if event_index = - 1
             then \<lparr>returned = Inl (Error ''Event not found''), jsonData = Some d, after = w\<rparr>
             else
               let updated_event = spread (events d ! nat event_index) data
               in \<lparr>returned = Inr updated_event,
                   jsonData = Some (d\<lparr>events := (events d)[nat event_index := updated_event]\<rparr>),
                   after = publish ''eventUpdated'' [''eventUpdated'' \<mapsto> updated_event] w\<rparr>)"

definition deleteEvent :: "string \<Rightarrow> world \<Rightarrow> obj outcome" where
  "deleteEvent id' w =
     (case readData w of
        Inl e \<Rightarrow> \<lparr>returned = Inl e, jsonData = None, after = w\<rparr>
      | Inr d \<Rightarrow>
          let event_index = findIndex (\<lambda>event. strict_eq (event ''id'') (Some (parseInt id'))) (events d)
          in if event_index = - 1
             then \<lparr>returned = Inl (Error ''Event not found''), jsonData = Some d, after = w\<rparr>
             else
               let event = events d ! nat event_index
               in \<lparr>returned = Inr event,
                   jsonData = Some (d\<lparr>events := splice (nat event_index) 1 (events d)\<rparr>),
                   after = publish ''eventDeleted'' [''eventDeleted'' \<mapsto> event] w\<rparr>)"

definition deleteAllEvents :: "world \<Rightarrow> obj outcome" where
  "deleteAllEvents w =
     (case readData w of
        Inl e \<Rightarrow> \<lparr>returned = Inl e, jsonData = None, after = w\<rparr>
      | Inr d \<Rightarrow>
          let length' = length (events d)
          in \<lparr>returned = Inr [''count'' \<mapsto> JNum (of_nat length')],
              jsonData = Some (d\<lparr>events := splice 0 length' (events d)\<rparr>),
              after = w\<rparr>)"

definition addLocation :: "string \<Rightarrow> obj \<Rightarrow> world \<Rightarrow> obj outcome" where
  "addLocation nanoid data w =
     (case readData w of
        Inl e \<Rightarrow> \<lparr>returned = Inl e, jsonData = None, after = w\<rparr>
      | Inr d \<Rightarrow>
          let location = spread [''id'' \<mapsto> JStr nanoid] data
          in \<lparr>returned = Inr location,
              jsonData = Some (d\<lparr>locations := locations d @ [location]\<rparr>),
              after = publish ''locationCreated'' [''locationCreated'' \<mapsto> location] w\<rparr>)"

definition updateLocation :: "string \<Rightarrow> obj \<Rightarrow> world \<Rightarrow> obj outcome" where
  "updateLocation id' data w =
     (case readData w of
        Inl e \<Rightarrow> \<lparr>returned = Inl e, jsonData = None, after = w\<rparr>
      | Inr d \<Rightarrow>
          let location_index = findIndex (\<lambda>location. strict_eq (location ''id'') (Some (parseInt id'))) (locations d)
          in if location_index = - 1
             then \<lparr>returned = Inl (Error ''Location not found''), jsonData = Some d, after = w\<rparr>
             else
               let updated_location = spread (locations d ! nat location_index) data
               in \<lparr>returned = Inr updated_location,
                   jsonData = Some (d\<lparr>locations := (locations d)[nat location_index := updated_location]\<rparr>),
                   after = publish ''locationUpdated'' [''locationUpdated'' \<mapsto> updated_location] w\<rparr>)"

definition deleteLocation :: "string \<Rightarrow> world \<Rightarrow> obj outcome" where
  "deleteLocation id' w =
     (case readData w of
        Inl e \<Rightarrow> \<lparr>returned = Inl e, jsonData = None, after = w\<rparr>
      | Inr d \<Rightarrow>
          let location_index = findIndex (\<lambda>location. strict_eq (location ''id'') (Some (parseInt id'))) (locations d)
          in if location_index = - 1
             then \<lparr>returned = Inl (Error ''Location not found''), jsonData = Some d, after = w\<rparr>
             else
               let location = locations d ! nat location_index
               in \<lparr>returned = Inr location,
                   jsonData = Some (d\<lparr>locations := splice (nat location_index) 1 (locations d)\<rparr>),
                   after = publish ''locationDeleted'' [''locationDeleted'' \<mapsto> location] w\<rparr>)"

definition deleteAllLocations :: "world \<Rightarrow> obj outcome" where
  "deleteAllLocations w =
     (case readData w of
        Inl e \<Rightarrow> \<lparr>returned = Inl e, jsonData = None, after = w\<rparr>
      | Inr d \<Rightarrow>
          let length' = length (locations d)
          in \<lparr>returned = Inr [''count'' \<mapsto> JNum (of_nat length')],
              jsonData = Some (d\<lparr>locations := splice 0 length' (locations d)\<rparr>),
              after = w\<rparr>)"

definition addParticipant :: "string \<Rightarrow> obj \<Rightarrow> world \<Rightarrow> obj outcome" where
  "addParticipant nanoid data w =
     (case readData w of
        Inl e \<Rightarrow> \<lparr>returned = Inl e, jsonData = None, after = w\<rparr>
      | Inr d \<Rightarrow>
          let participant = spread [''id'' \<mapsto> JStr nanoid] data
          in \<lparr>returned = Inr participant,
              jsonData = Some (d\<lparr>participants := participants d @ [participant]\<rparr>),
              after = publish ''participantAdded'' [''participantAdded'' \<mapsto> participant] w\<rparr>)"

definition updateParticipant :: "string \<Rightarrow> obj \<Rightarrow> world \<Rightarrow> obj outcome" where
  "updateParticipant id' data w =
     (case readData w of
        Inl e \<Rightarrow> \<lparr>returned = Inl e, jsonData = None, after = w\<rparr>
      | Inr d \<Rightarrow>
          let participant_index = findIndex (\<lambda>participant. strict_eq (participant ''id'') (Some (parseInt id'))) (participants d)
          in if participant_index = - 1
             then \<lparr>returned = Inl (Error ''Participant not found''), jsonData = Some d, after = w\<rparr>
             else
               let updated_participant = spread (participants d ! nat participant_index) data
               in \<lparr>returned = Inr updated_participant,
                   jsonData = Some (d\<lparr>participants := (participants d)[nat participant_index := updated_participant]\<rparr>),
                   after = publish ''participantUpdated'' [''participantUpdated'' \<mapsto> updated_participant] w\<rparr>)"

definition deleteParticipant :: "string \<Rightarrow> world \<Rightarrow> obj outcome" where
  "deleteParticipant id' w =
     (case readData w of
        Inl e \<Rightarrow> \<lparr>returned = Inl e, jsonData = None, after = w\<rparr>
      | Inr d \<Rightarrow>
          let participant_index = findIndex (\<lambda>participant. strict_eq (participant ''id'') (Some (parseInt id'))) (participants d)
          in if participant_index = - 1
             then \<lparr>returned = Inl (Error ''Participant not found''), jsonData = Some d, after = w\<rparr>
             else
               let participant = participants d ! nat participant_index
               in \<lparr>returned = Inr participant,
                   jsonData = Some (d\<lparr>participants := splice (nat participant_index) 1 (participants d)\<rparr>),
                   after = publish ''participantDeleted'' [''participantDeleted'' \<mapsto> participant] w\<rparr>)"

definition deleteAllParticipants :: "world \<Rightarrow> obj outcome" where
  "deleteAllParticipants w =
     (case readData w of
        Inl e \<Rightarrow> \<lparr>returned = Inl e, jsonData = None, after = w\<rparr>
      | Inr d \<Rightarrow>
          let length' = length (participants d)
          in \<lparr>returned = Inr [''count'' \<mapsto> JNum (of_nat length')],
              jsonData = Some (d\<lparr>participants := splice 0 length' (participants d)\<rparr>),
              after = w\<rparr>)"

subsection \<open>Subscription\<close>

text \<open>
  The two filters handed to \<^verbatim>\<open>withFilter\<close>. Reading \<^verbatim>\<open>user_id\<close> of a payload that has
  no record under the topic's key is a \<^verbatim>\<open>TypeError\<close>.
\<close>

definition eventCreated_filter :: "payload \<Rightarrow> obj \<Rightarrow> error + bool" where
  "eventCreated_filter payload variables =
     (if truthy (variables ''user_id'')
      then (case payload ''eventCreated'' of
              None \<Rightarrow> Inl TypeError
            | Some eventCreated \<Rightarrow>
                Inr (strict_eq (eventCreated ''user_id'') (variables ''user_id'')))
      else Inr True)"

definition participantAdded_filter :: "payload \<Rightarrow> obj \<Rightarrow> error + bool" where
  "participantAdded_filter payload variables =
     (if truthy (variables ''user_id'')
      then (case payload ''participantAdded'' of
              None \<Rightarrow> Inl TypeError
            | Some participantAdded \<Rightarrow>
                Inr (strict_eq (participantAdded ''user_id'') (variables ''user_id'')))
      else Inr True)"

definition no_filter :: "payload \<Rightarrow> obj \<Rightarrow> error + bool" where
  "no_filter payload variables = Inr True"

text \<open>
  The subscription fields that carry records: the topic each one listens to and the
  filter in front of it.
\<close>

definition Subscription :: "(string \<times> string \<times> (payload \<Rightarrow> obj \<Rightarrow> error + bool)) list" where
  "Subscription =
     [(''userCreated'', ''userCreated'', no_filter),
      (''userUpdated'', ''userUpdated'', no_filter),
      (''userDeleted'', ''userDeleted'', no_filter),
      (''eventCreated'', ''eventCreated'', eventCreated_filter),
      (''eventUpdated'', ''eventUpdated'', no_filter),
      (''eventDeleted'', ''eventDeleted'', no_filter),
      (''locationCreated'', ''locationCreated'', no_filter),
      (''locationUpdated'', ''locationUpdated'', no_filter),
      (''locationDeleted'', ''locationDeleted'', no_filter),
      (''participantAdded'', ''participantAdded'', participantAdded_filter),
      (''participantUpdated'', ''participantUpdated'', no_filter),
      (''participantDeleted'', ''participantDeleted'', no_filter)]"

text \<open>
  What a subscriber of a field, with its arguments, is handed out of a list of
  publications: those on the field's topic for which the filter returns \<^verbatim>\<open>true\<close>.
\<close>

definition received :: "string \<Rightarrow> obj \<Rightarrow> (string \<times> payload) list \<Rightarrow> payload list" where
  "received field variables pubs =
     (case map_of Subscription field of
        None \<Rightarrow> []
      | Some (topic, flt) \<Rightarrow>
          map snd (filter (\<lambda>(t, p). t = topic \<and> flt p variables = Inr True) pubs))"

text \<open>The publications made between an earlier world and a later one.\<close>

definition published_since :: "world \<Rightarrow> world \<Rightarrow> (string \<times> payload) list" where
  "published_since w0 w1 = drop (length (published w0)) (published w1)"

section \<open>Example stores and inputs\<close>

definition alice :: obj where
  "alice = [''id'' \<mapsto> JStr ''1'', ''username'' \<mapsto> JStr ''alice'', ''email'' \<mapsto> JStr ''a@x.com'']"

definition alice_store :: world where
  "alice_store =
     \<lparr>data_json = Some \<lparr>users = [alice], events = [], locations = [], participants = []\<rparr>,
      published = []\<rparr>"

definition empty_store :: world where
  "empty_store =
     \<lparr>data_json = Some \<lparr>users = [], events = [], locations = [], participants = []\<rparr>,
      published = []\<rparr>"

definition bob_input :: obj where
  "bob_input = [''username'' \<mapsto> JStr ''bob'', ''email'' \<mapsto> JStr ''b@x.com'']"

definition hq_input :: obj where
  "hq_input =
     [''name'' \<mapsto> JStr ''HQ'', ''desc'' \<mapsto> JStr ''Main office'',
      ''lat'' \<mapsto> JNum 1, ''lng'' \<mapsto> JNum 2]"

definition party_input :: obj where
  "party_input =
     [''title'' \<mapsto> JStr ''Party'', ''desc'' \<mapsto> JStr ''Friday'', ''date'' \<mapsto> JStr ''2024-01-05'',
      ''user_id'' \<mapsto> JStr ''7'']"

definition guest_input :: obj where
  "guest_input = [''user_id'' \<mapsto> JStr ''7'', ''event_id'' \<mapsto> JStr ''e1'']"

definition retitle_patch :: obj where
  "retitle_patch = [''title'' \<mapsto> JStr ''Changed'']"

definition rename_patch :: obj where
  "rename_patch = [''id'' \<mapsto> JStr ''zzz'']"

text \<open>A document whose ids are JSON numbers, one record in each collection.\<close>

definition user1 :: obj where
  "user1 = [''id'' \<mapsto> JNum 1, ''username'' \<mapsto> JStr ''alice'', ''email'' \<mapsto> JStr ''a@x.com'']"

definition event1 :: obj where
  "event1 = [''id'' \<mapsto> JNum 1, ''title'' \<mapsto> JStr ''Party'', ''user_id'' \<mapsto> JNum 1]"

definition location1 :: obj where
  "location1 = [''id'' \<mapsto> JNum 1, ''name'' \<mapsto> JStr ''HQ'']"

definition participant1 :: obj where
  "participant1 = [''id'' \<mapsto> JNum 1, ''user_id'' \<mapsto> JNum 1, ''event_id'' \<mapsto> JNum 1]"

definition numbered_store :: world where
  "numbered_store =
     \<lparr>data_json =
        Some \<lparr>users = [user1], events = [event1], locations = [location1],
              participants = [participant1]\<rparr>,
      published = []\<rparr>"

section \<open>Auxiliary facts\<close>

lemma parseInt_1: "parseInt ''1'' = JNum 1"
  by (simp add: parseInt_def is_ws_def digit_val_def to_double_def)

lemma parseInt_2: "parseInt ''2'' = JNum 2"
  by (simp add: parseInt_def is_ws_def digit_val_def to_double_def)

lemma parseInt_1abc: "parseInt ''1abc'' = JNum 1"
  by (simp add: parseInt_def is_ws_def digit_val_def to_double_def)

text \<open>A no-break space in front is trimmed, and an integer beyond \<open>2^53\<close> is rounded.\<close>

lemma parseInt_nbsp: "parseInt [CHR 0xA0, CHR ''1''] = JNum 1"
  by (simp add: parseInt_def is_ws_def digit_val_def to_double_def)

lemma bit_length_example: "bit_length 9007199254740993 = 54"
  by (simp add: bit_length.simps)

lemma to_double_example: "to_double 9007199254740993 = Some 9007199254740992"
  by (simp add: to_double_def bit_length_example)

lemma parseInt_rounds: "parseInt ''9007199254740993'' = JNum 9007199254740992"
  by (simp add: parseInt_def is_ws_def digit_val_def to_double_example)

lemma String_num_1: "String_num 1 = ''1''"
  by code_simp

lemma strict_eq_str: "strict_eq x (Some (JStr s)) = (x = Some (JStr s))"
  by (cases "(x, Some (JStr s))" rule: strict_eq.cases) auto

lemma findIndex_from_none:
  "0 \<le> i \<Longrightarrow> (findIndex_from p xs i = - 1) = (\<forall>x \<in> set xs. \<not> p x)"
proof (induction xs arbitrary: i)
  case Nil
  show ?case by simp
next
  case (Cons x xs)
  from Cons.IH [of "i + 1"] Cons.prems show ?case by (cases "p x") auto
qed

lemma findIndex_none: "(findIndex p xs = - 1) = (\<forall>x \<in> set xs. \<not> p x)"
  by (simp add: findIndex_def findIndex_from_none)

lemma findIndex_from_hit:
  "findIndex_from p xs i \<noteq> - 1 \<Longrightarrow> 0 \<le> i \<Longrightarrow>
     i \<le> findIndex_from p xs i \<and> nat (findIndex_from p xs i - i) < length xs \<and>
     p (xs ! nat (findIndex_from p xs i - i))"
proof (induction xs arbitrary: i)
  case Nil
  then show ?case by simp
next
  case (Cons x xs)
  show ?case
  proof (cases "p x")
    case True
    then show ?thesis by simp
  next
    case False
    with Cons.prems have ne: "findIndex_from p xs (i + 1) \<noteq> - 1" by simp
    from Cons.IH [OF ne] Cons.prems(2)
    have h: "i + 1 \<le> findIndex_from p xs (i + 1)"
      "nat (findIndex_from p xs (i + 1) - (i + 1)) < length xs"
      "p (xs ! nat (findIndex_from p xs (i + 1) - (i + 1)))" by auto
    from h(1) have "nat (findIndex_from p xs (i + 1) - i) =
        Suc (nat (findIndex_from p xs (i + 1) - (i + 1)))"
      by linarith
    with h False show ?thesis by simp
  qed
qed

lemma findIndex_hit:
  "findIndex p xs \<noteq> - 1 \<Longrightarrow>
     0 \<le> findIndex p xs \<and> nat (findIndex p xs) < length xs \<and> p (xs ! nat (findIndex p xs))"
  using findIndex_from_hit [of p xs 0] by (simp add: findIndex_def)

lemma spread_fresh_id: "data k = None \<Longrightarrow> spread [k \<mapsto> v] data = data(k \<mapsto> v)"
  by (rule ext) (simp add: spread_def map_add_def split: option.split)

lemma conforms_undeclared:
  "conforms ty data \<Longrightarrow> k \<notin> set (map fst ty) \<Longrightarrow> data k = None"
  by (auto simp: conforms_def)

lemma deleteAll_world:
  "after (deleteAllUsers w) = w" "after (deleteAllEvents w) = w"
  "after (deleteAllLocations w) = w" "after (deleteAllParticipants w) = w"
  by (simp_all add: deleteAllUsers_def deleteAllEvents_def deleteAllLocations_def
      deleteAllParticipants_def Let_def split: sum.split)

lemma map_of_Subscription:
  "map_of Subscription ''eventCreated'' = Some (''eventCreated'', eventCreated_filter)"
  "map_of Subscription ''participantAdded'' = Some (''participantAdded'', participantAdded_filter)"
  by (simp_all add: Subscription_def)

lemma spread_other: "k \<noteq> k' \<Longrightarrow> spread [k' \<mapsto> v] data k = data k"
  by (simp add: spread_def map_add_def split: option.split)

lemma parseInt_not_string: "parseInt id' \<noteq> JStr s"
  by (simp add: parseInt_def split: prod.split option.split)

lemma string_id_never_matches: "\<not> strict_eq (Some (JStr s)) (Some (parseInt id'))"
  by (cases "parseInt id'") (simp_all add: parseInt_not_string)

lemma spread_patch: "data k = Some v \<Longrightarrow> spread old data k = Some v"
  by (simp add: spread_def)

lemma publish_simps:
  "data_json (publish topic p w) = data_json w"
  "published (publish topic p w) = published w @ [(topic, p)]"
  "published_since w (publish topic p w) = [(topic, p)]"
  by (simp_all add: publish_def published_since_def)

lemma Query_publish:
  "Query_users (publish topic p w) = Query_users w"
  "Query_user i (publish topic p w) = Query_user i w"
  "Query_events (publish topic p w) = Query_events w"
  "Query_event i (publish topic p w) = Query_event i w"
  "Query_locations (publish topic p w) = Query_locations w"
  "Query_location i (publish topic p w) = Query_location i w"
  "Query_participants (publish topic p w) = Query_participants w"
  "Query_participant i (publish topic p w) = Query_participant i w"
  by (simp_all add: Query_users_def Query_user_def Query_events_def Query_event_def
      Query_locations_def Query_location_def Query_participants_def Query_participant_def
      readData_def publish_simps)

lemma addUser_unfold:
  "data_json w = Some d \<Longrightarrow>
   addUser data w =
     \<lparr>returned = Inr (spread [''id'' \<mapsto> JStr (String_num (length (users d) + 1))] data),
      jsonData = Some (d\<lparr>users := users d @ [spread [''id'' \<mapsto> JStr (String_num (length (users d) + 1))] data]\<rparr>),
      after = publish ''userCreated''
        [''userCreated'' \<mapsto> spread [''id'' \<mapsto> JStr (String_num (length (users d) + 1))] data] w\<rparr>"
  by (simp add: addUser_def readData_def Let_def)

lemma updateUser_unfold:
  "data_json w = Some d \<Longrightarrow>
   updateUser id' data w =
     (if findIndex (\<lambda>user. strict_eq (user ''id'') (Some (parseInt id'))) (users d) = - 1
      then \<lparr>returned = Inl (Error ''User not found''), jsonData = Some d, after = w\<rparr>
      else
        \<lparr>returned = Inr (spread (users d !
             nat (findIndex (\<lambda>user. strict_eq (user ''id'') (Some (parseInt id'))) (users d))) data),
         jsonData = Some (d\<lparr>users := (users d)
           [nat (findIndex (\<lambda>user. strict_eq (user ''id'') (Some (parseInt id'))) (users d)) :=
              spread (users d !
                nat (findIndex (\<lambda>user. strict_eq (user ''id'') (Some (parseInt id'))) (users d)))
                data]\<rparr>),
         after = publish ''userUpdated''
           [''userUpdated'' \<mapsto> spread (users d !
              nat (findIndex (\<lambda>user. strict_eq (user ''id'') (Some (parseInt id'))) (users d)))
              data] w\<rparr>)"
  by (simp add: updateUser_def readData_def Let_def)

lemma deleteUser_unfold:
  "data_json w = Some d \<Longrightarrow>
   deleteUser id' w =
     (if findIndex (\<lambda>user. strict_eq (user ''id'') (Some (parseInt id'))) (users d) = - 1
      then \<lparr>returned = Inl (Error ''User not found''), jsonData = Some d, after = w\<rparr>
      else
        \<lparr>returned = Inr (users d !
           nat (findIndex (\<lambda>user. strict_eq (user ''id'') (Some (parseInt id'))) (users d))),
         jsonData = Some (d\<lparr>users := splice
           (nat (findIndex (\<lambda>user. strict_eq (user ''id'') (Some (parseInt id'))) (users d))) 1
           (users d)\<rparr>),
         after = publish ''userDeleted''
           [''userDeleted'' \<mapsto> users d !
              nat (findIndex (\<lambda>user. strict_eq (user ''id'') (Some (parseInt id'))) (users d))]
           w\<rparr>)"
  by (simp add: deleteUser_def readData_def Let_def)

lemma deleteAllUsers_unfold:
  "data_json w = Some d \<Longrightarrow>
   deleteAllUsers w =
     \<lparr>returned = Inr [''count'' \<mapsto> JNum (of_nat (length (users d)))],
      jsonData = Some (d\<lparr>users := []\<rparr>), after = w\<rparr>"
  by (simp add: deleteAllUsers_def readData_def Let_def splice_def)

lemma addEvent_unfold:
  "data_json w = Some d \<Longrightarrow>
   addEvent nanoid data w =
     \<lparr>returned = Inr (spread [''id'' \<mapsto> JStr (nanoid)] data),
      jsonData = Some (d\<lparr>events := events d @ [spread [''id'' \<mapsto> JStr (nanoid)] data]\<rparr>),
      after = publish ''eventCreated''
        [''eventCreated'' \<mapsto> spread [''id'' \<mapsto> JStr (nanoid)] data] w\<rparr>"
  by (simp add: addEvent_def readData_def Let_def)

lemma updateEvent_unfold:
  "data_json w = Some d \<Longrightarrow>
   updateEvent id' data w =
     (if findIndex (\<lambda>event. strict_eq (event ''id'') (Some (parseInt id'))) (events d) = - 1
      then \<lparr>returned = Inl (Error ''Event not found''), jsonData = Some d, after = w\<rparr>
      else
        \<lparr>returned = Inr (spread (events d !
             nat (findIndex (\<lambda>event. strict_eq (event ''id'') (Some (parseInt id'))) (events d))) data),
         jsonData = Some (d\<lparr>events := (events d)
           [nat (findIndex (\<lambda>event. strict_eq (event ''id'') (Some (parseInt id'))) (events d)) :=
              spread (events d !
                nat (findIndex (\<lambda>event. strict_eq (event ''id'') (Some (parseInt id'))) (events d)))
                data]\<rparr>),
         after = publish ''eventUpdated''
           [''eventUpdated'' \<mapsto> spread (events d !
              nat (findIndex (\<lambda>event. strict_eq (event ''id'') (Some (parseInt id'))) (events d)))
              data] w\<rparr>)"
  by (simp add: updateEvent_def readData_def Let_def)

lemma deleteEvent_unfold:
  "data_json w = Some d \<Longrightarrow>
   deleteEvent id' w =
     (if findIndex (\<lambda>event. strict_eq (event ''id'') (Some (parseInt id'))) (events d) = - 1
      then \<lparr>returned = Inl (Error ''Event not found''), jsonData = Some d, after = w\<rparr>
      else
        \<lparr>returned = Inr (events d !
           nat (findIndex (\<lambda>event. strict_eq (event ''id'') (Some (parseInt id'))) (events d))),
         jsonData = Some (d\<lparr>events := splice
           (nat (findIndex (\<lambda>event. strict_eq (event ''id'') (Some (parseInt id'))) (events d))) 1
           (events d)\<rparr>),
         after = publish ''eventDeleted''
           [''eventDeleted'' \<mapsto> events d !
              nat (findIndex (\<lambda>event. strict_eq (event ''id'') (Some (parseInt id'))) (events d))]
           w\<rparr>)"
  by (simp add: deleteEvent_def readData_def Let_def)

lemma deleteAllEvents_unfold:
  "data_json w = Some d \<Longrightarrow>
   deleteAllEvents w =
     \<lparr>returned = Inr [''count'' \<mapsto> JNum (of_nat (length (events d)))],
      jsonData = Some (d\<lparr>events := []\<rparr>), after = w\<rparr>"
  by (simp add: deleteAllEvents_def readData_def Let_def splice_def)

lemma addLocation_unfold:
  "data_json w = Some d \<Longrightarrow>
   addLocation nanoid data w =
     \<lparr>returned = Inr (spread [''id'' \<mapsto> JStr (nanoid)] data),
      jsonData = Some (d\<lparr>locations := locations d @ [spread [''id'' \<mapsto> JStr (nanoid)] data]\<rparr>),
      after = publish ''locationCreated''
        [''locationCreated'' \<mapsto> spread [''id'' \<mapsto> JStr (nanoid)] data] w\<rparr>"
  by (simp add: addLocation_def readData_def Let_def)

lemma updateLocation_unfold:
  "data_json w = Some d \<Longrightarrow>
   updateLocation id' data w =
     (if findIndex (\<lambda>location. strict_eq (location ''id'') (Some (parseInt id'))) (locations d) = - 1
      then \<lparr>returned = Inl (Error ''Location not found''), jsonData = Some d, after = w\<rparr>
      else
        \<lparr>returned = Inr (spread (locations d !
             nat (findIndex (\<lambda>location. strict_eq (location ''id'') (Some (parseInt id'))) (locations d))) data),
         jsonData = Some (d\<lparr>locations := (locations d)
           [nat (findIndex (\<lambda>location. strict_eq (location ''id'') (Some (parseInt id'))) (locations d)) :=
              spread (locations d !
                nat (findIndex (\<lambda>location. strict_eq (location ''id'') (Some (parseInt id'))) (locations d)))
                data]\<rparr>),
         after = publish ''locationUpdated''
           [''locationUpdated'' \<mapsto> spread (locations d !
              nat (findIndex (\<lambda>location. strict_eq (location ''id'') (Some (parseInt id'))) (locations d)))
              data] w\<rparr>)"
  by (simp add: updateLocation_def readData_def Let_def)

lemma deleteLocation_unfold:
  "data_json w = Some d \<Longrightarrow>
   deleteLocation id' w =
     (if findIndex (\<lambda>location. strict_eq (location ''id'') (Some (parseInt id'))) (locations d) = - 1
      then \<lparr>returned = Inl (Error ''Location not found''), jsonData = Some d, after = w\<rparr>
      else
        \<lparr>returned = Inr (locations d !
           nat (findIndex (\<lambda>location. strict_eq (location ''id'') (Some (parseInt id'))) (locations d))),
         jsonData = Some (d\<lparr>locations := splice
           (nat (findIndex (\<lambda>location. strict_eq (location ''id'') (Some (parseInt id'))) (locations d))) 1
           (locations d)\<rparr>),
         after = publish ''locationDeleted''
           [''locationDeleted'' \<mapsto> locations d !
              nat (findIndex (\<lambda>location. strict_eq (location ''id'') (Some (parseInt id'))) (locations d))]
           w\<rparr>)"
  by (simp add: deleteLocation_def readData_def Let_def)

lemma deleteAllLocations_unfold:
  "data_json w = Some d \<Longrightarrow>
   deleteAllLocations w =
     \<lparr>returned = Inr [''count'' \<mapsto> JNum (of_nat (length (locations d)))],
      jsonData = Some (d\<lparr>locations := []\<rparr>), after = w\<rparr>"
  by (simp add: deleteAllLocations_def readData_def Let_def splice_def)

lemma addParticipant_unfold:
  "data_json w = Some d \<Longrightarrow>
   addParticipant nanoid data w =
     \<lparr>returned = Inr (spread [''id'' \<mapsto> JStr (nanoid)] data),
      jsonData = Some (d\<lparr>participants := participants d @ [spread [''id'' \<mapsto> JStr (nanoid)] data]\<rparr>),
      after = publish ''participantAdded''
        [''participantAdded'' \<mapsto> spread [''id'' \<mapsto> JStr (nanoid)] data] w\<rparr>"
  by (simp add: addParticipant_def readData_def Let_def)

lemma updateParticipant_unfold:
  "data_json w = Some d \<Longrightarrow>
   updateParticipant id' data w =
     (if findIndex (\<lambda>participant. strict_eq (participant ''id'') (Some (parseInt id'))) (participants d) = - 1
      then \<lparr>returned = Inl (Error ''Participant not found''), jsonData = Some d, after = w\<rparr>
      else
        \<lparr>returned = Inr (spread (participants d !
             nat (findIndex (\<lambda>participant. strict_eq (participant ''id'') (Some (parseInt id'))) (participants d))) data),
         jsonData = Some (d\<lparr>participants := (participants d)
           [nat (findIndex (\<lambda>participant. strict_eq (participant ''id'') (Some (parseInt id'))) (participants d)) :=
              spread (participants d !
                nat (findIndex (\<lambda>participant. strict_eq (participant ''id'') (Some (parseInt id'))) (participants d)))
                data]\<rparr>),
         after = publish ''participantUpdated''
           [''participantUpdated'' \<mapsto> spread (participants d !
              nat (findIndex (\<lambda>participant. strict_eq (participant ''id'') (Some (parseInt id'))) (participants d)))
              data] w\<rparr>)"
  by (simp add: updateParticipant_def readData_def Let_def)

lemma deleteParticipant_unfold:
  "data_json w = Some d \<Longrightarrow>
   deleteParticipant id' w =
     (if findIndex (\<lambda>participant. strict_eq (participant ''id'') (Some (parseInt id'))) (participants d) = - 1
      then \<lparr>returned = Inl (Error ''Participant not found''), jsonData = Some d, after = w\<rparr>
      else
        \<lparr>returned = Inr (participants d !
           nat (findIndex (\<lambda>participant. strict_eq (participant ''id'') (Some (parseInt id'))) (participants d))),
         jsonData = Some (d\<lparr>participants := splice
           (nat (findIndex (\<lambda>participant. strict_eq (participant ''id'') (Some (parseInt id'))) (participants d))) 1
           (participants d)\<rparr>),
         after = publish ''participantDeleted''
           [''participantDeleted'' \<mapsto> participants d !
              nat (findIndex (\<lambda>participant. strict_eq (participant ''id'') (Some (parseInt id'))) (participants d))]
           w\<rparr>)"
  by (simp add: deleteParticipant_def readData_def Let_def)

lemma deleteAllParticipants_unfold:
  "data_json w = Some d \<Longrightarrow>
   deleteAllParticipants w =
     \<lparr>returned = Inr [''count'' \<mapsto> JNum (of_nat (length (participants d)))],
      jsonData = Some (d\<lparr>participants := []\<rparr>), after = w\<rparr>"
  by (simp add: deleteAllParticipants_def readData_def Let_def splice_def)

lemma numbered_find:
  "findIndex (\<lambda>r. strict_eq (r ''id'') (Some (parseInt ''1''))) [user1] = 0"
  "findIndex (\<lambda>r. strict_eq (r ''id'') (Some (parseInt ''1''))) [event1] = 0"
  "findIndex (\<lambda>r. strict_eq (r ''id'') (Some (parseInt ''1''))) [location1] = 0"
  "findIndex (\<lambda>r. strict_eq (r ''id'') (Some (parseInt ''1''))) [participant1] = 0"
  by (simp_all add: findIndex_def parseInt_1 user1_def event1_def location1_def
      participant1_def)

lemma deleteUser_found:
  assumes d: "data_json w = Some d" and r: "returned (deleteUser id' w) = Inr r"
  shows "(\<exists>i. i < length (users d) \<and> users d ! i = r \<and>
             jsonData (deleteUser id' w) =
               Some (d\<lparr>users := take i (users d) @ drop (Suc i) (users d)\<rparr>)) \<and>
         published_since w (after (deleteUser id' w)) =
           [(''userDeleted'', [''userDeleted'' \<mapsto> r])] \<and>
         data_json (after (deleteUser id' w)) = Some d \<and>
         Query_users (after (deleteUser id' w)) = Inr (users d) \<and>
         Query_user i' (after (deleteUser id' w)) = Query_user i' w"
proof -
  let ?p = "\<lambda>user. strict_eq (user ''id'') (Some (parseInt id'))"
  from r have ne: "findIndex ?p (users d) \<noteq> - 1"
    by (auto simp: deleteUser_unfold [OF d] split: if_splits)
  with r have r': "users d ! nat (findIndex ?p (users d)) = r"
    by (simp add: deleteUser_unfold [OF d])
  from findIndex_hit [OF ne] r' ne
  have "\<exists>i. i < length (users d) \<and> users d ! i = r \<and>
             jsonData (deleteUser id' w) =
               Some (d\<lparr>users := take i (users d) @ drop (Suc i) (users d)\<rparr>)"
    by (intro exI [of _ "nat (findIndex ?p (users d))"])
      (simp add: deleteUser_unfold [OF d] splice_def)
  moreover from ne r' have "after (deleteUser id' w) =
      publish ''userDeleted'' [''userDeleted'' \<mapsto> r] w"
    by (simp add: deleteUser_unfold [OF d])
  moreover have "Query_users w = Inr (users d)"
    by (simp add: Query_users_def readData_def d)
  ultimately show ?thesis
    by (simp add: publish_simps Query_publish d)
qed

lemma deleteEvent_found:
  assumes d: "data_json w = Some d" and r: "returned (deleteEvent id' w) = Inr r"
  shows "(\<exists>i. i < length (events d) \<and> events d ! i = r \<and>
             jsonData (deleteEvent id' w) =
               Some (d\<lparr>events := take i (events d) @ drop (Suc i) (events d)\<rparr>)) \<and>
         published_since w (after (deleteEvent id' w)) =
           [(''eventDeleted'', [''eventDeleted'' \<mapsto> r])] \<and>
         data_json (after (deleteEvent id' w)) = Some d \<and>
         Query_events (after (deleteEvent id' w)) = Inr (events d) \<and>
         Query_event i' (after (deleteEvent id' w)) = Query_event i' w"
proof -
  let ?p = "\<lambda>event. strict_eq (event ''id'') (Some (parseInt id'))"
  from r have ne: "findIndex ?p (events d) \<noteq> - 1"
    by (auto simp: deleteEvent_unfold [OF d] split: if_splits)
  with r have r': "events d ! nat (findIndex ?p (events d)) = r"
    by (simp add: deleteEvent_unfold [OF d])
  from findIndex_hit [OF ne] r' ne
  have "\<exists>i. i < length (events d) \<and> events d ! i = r \<and>
             jsonData (deleteEvent id' w) =
               Some (d\<lparr>events := take i (events d) @ drop (Suc i) (events d)\<rparr>)"
    by (intro exI [of _ "nat (findIndex ?p (events d))"])
      (simp add: deleteEvent_unfold [OF d] splice_def)
  moreover from ne r' have "after (deleteEvent id' w) =
      publish ''eventDeleted'' [''eventDeleted'' \<mapsto> r] w"
    by (simp add: deleteEvent_unfold [OF d])
  moreover have "Query_events w = Inr (events d)"
    by (simp add: Query_events_def readData_def d)
  ultimately show ?thesis
    by (simp add: publish_simps Query_publish d)
qed

lemma deleteLocation_found:
  assumes d: "data_json w = Some d" and r: "returned (deleteLocation id' w) = Inr r"
  shows "(\<exists>i. i < length (locations d) \<and> locations d ! i = r \<and>
             jsonData (deleteLocation id' w) =
               Some (d\<lparr>locations := take i (locations d) @ drop (Suc i) (locations d)\<rparr>)) \<and>
         published_since w (after (deleteLocation id' w)) =
           [(''locationDeleted'', [''locationDeleted'' \<mapsto> r])] \<and>
         data_json (after (deleteLocation id' w)) = Some d \<and>
         Query_locations (after (deleteLocation id' w)) = Inr (locations d) \<and>
         Query_location i' (after (deleteLocation id' w)) = Query_location i' w"
proof -
  let ?p = "\<lambda>location. strict_eq (location ''id'') (Some (parseInt id'))"
  from r have ne: "findIndex ?p (locations d) \<noteq> - 1"
    by (auto simp: deleteLocation_unfold [OF d] split: if_splits)
  with r have r': "locations d ! nat (findIndex ?p (locations d)) = r"
    by (simp add: deleteLocation_unfold [OF d])
  from findIndex_hit [OF ne] r' ne
  have "\<exists>i. i < length (locations d) \<and> locations d ! i = r \<and>
             jsonData (deleteLocation id' w) =
               Some (d\<lparr>locations := take i (locations d) @ drop (Suc i) (locations d)\<rparr>)"
    by (intro exI [of _ "nat (findIndex ?p (locations d))"])
      (simp add: deleteLocation_unfold [OF d] splice_def)
  moreover from ne r' have "after (deleteLocation id' w) =
      publish ''locationDeleted'' [''locationDeleted'' \<mapsto> r] w"
    by (simp add: deleteLocation_unfold [OF d])
  moreover have "Query_locations w = Inr (locations d)"
    by (simp add: Query_locations_def readData_def d)
  ultimately show ?thesis
    by (simp add: publish_simps Query_publish d)
qed

lemma deleteParticipant_found:
  assumes d: "data_json w = Some d" and r: "returned (deleteParticipant id' w) = Inr r"
  shows "(\<exists>i. i < length (participants d) \<and> participants d ! i = r \<and>
             jsonData (deleteParticipant id' w) =
               Some (d\<lparr>participants := take i (participants d) @ drop (Suc i) (participants d)\<rparr>)) \<and>
         published_since w (after (deleteParticipant id' w)) =
           [(''participantDeleted'', [''participantDeleted'' \<mapsto> r])] \<and>
         data_json (after (deleteParticipant id' w)) = Some d \<and>
         Query_participants (after (deleteParticipant id' w)) = Inr (participants d) \<and>
         Query_participant i' (after (deleteParticipant id' w)) = Query_participant i' w"
proof -
  let ?p = "\<lambda>participant. strict_eq (participant ''id'') (Some (parseInt id'))"
  from r have ne: "findIndex ?p (participants d) \<noteq> - 1"
    by (auto simp: deleteParticipant_unfold [OF d] split: if_splits)
  with r have r': "participants d ! nat (findIndex ?p (participants d)) = r"
    by (simp add: deleteParticipant_unfold [OF d])
  from findIndex_hit [OF ne] r' ne
  have "\<exists>i. i < length (participants d) \<and> participants d ! i = r \<and>
             jsonData (deleteParticipant id' w) =
               Some (d\<lparr>participants := take i (participants d) @ drop (Suc i) (participants d)\<rparr>)"
    by (intro exI [of _ "nat (findIndex ?p (participants d))"])
      (simp add: deleteParticipant_unfold [OF d] splice_def)
  moreover from ne r' have "after (deleteParticipant id' w) =
      publish ''participantDeleted'' [''participantDeleted'' \<mapsto> r] w"
    by (simp add: deleteParticipant_unfold [OF d])
  moreover have "Query_participants w = Inr (participants d)"
    by (simp add: Query_participants_def readData_def d)
  ultimately show ?thesis
    by (simp add: publish_simps Query_publish d)
qed

section \<open>Updating by a string id\<close>

text \<open>
  C2. The store holds the user \<open>{id: "1", username: "alice", email: "a@x.com"}\<close> and
  \<^verbatim>\<open>updateUser\<close> is called with id \<open>"1"\<close> and the patch \<open>{email: "alice@new.com"}\<close>.
  The resolver compares each stored id with \<^verbatim>\<open>parseInt(id)\<close>, the number 1, by \<^verbatim>\<open>===\<close>;
  the stored id is the string \<open>"1"\<close>, so no record is found and the call throws
  \<open>User not found\<close>, leaving the parsed document and the world as they were. The query
  \<^verbatim>\<open>user\<close>, which compares with the string itself, finds the record under the same id.
\<close>

theorem updateUser_string_id_not_found:
  "updateUser ''1'' [''email'' \<mapsto> JStr ''alice@new.com''] alice_store =
     \<lparr>returned = Inl (Error ''User not found''),
      jsonData = data_json alice_store, after = alice_store\<rparr>
   \<and> Query_user ''1'' alice_store = Inr (Some alice)"
  by (simp add: updateUser_def Query_user_def readData_def alice_store_def alice_def
      findIndex_def parseInt_1)

section \<open>Bulk deletion and the event bus\<close>

text \<open>
  C7. No \<^verbatim>\<open>deleteAll\<close> resolver publishes: the world after the call has the publications
  it had before, so nothing was published since, and what any subscriber of any field,
  with any arguments, is handed out of the publications is what it was.
\<close>

theorem deleteAll_publishes_nothing:
  "published_since w (after (deleteAllUsers w)) = [] \<and>
   published_since w (after (deleteAllEvents w)) = [] \<and>
   published_since w (after (deleteAllLocations w)) = [] \<and>
   published_since w (after (deleteAllParticipants w)) = [] \<and>
   received field variables (published (after (deleteAllUsers w))) =
     received field variables (published w) \<and>
   received field variables (published (after (deleteAllEvents w))) =
     received field variables (published w) \<and>
   received field variables (published (after (deleteAllLocations w))) =
     received field variables (published w) \<and>
   received field variables (published (after (deleteAllParticipants w))) =
     received field variables (published w)"
  by (simp add: deleteAll_world published_since_def)

section \<open>The subscription filters\<close>

text \<open>
  C10. A subscriber of \<^verbatim>\<open>eventCreated\<close> or \<^verbatim>\<open>participantAdded\<close> whose \<^verbatim>\<open>user_id\<close> argument
  is the empty string passes every payload through the filter, whatever the payload's
  own \<^verbatim>\<open>user_id\<close>, and so is handed every publication on the topic: the filter tests
  the argument for truthiness, and the empty string is falsy as an absent argument is.
\<close>

theorem empty_user_id_receives_all:
  "variables ''user_id'' = Some (JStr '''') \<Longrightarrow>
     eventCreated_filter payload variables = Inr True \<and>
     participantAdded_filter payload variables = Inr True \<and>
     received ''eventCreated'' variables pubs =
       map snd (filter (\<lambda>(t, p). t = ''eventCreated'') pubs) \<and>
     received ''participantAdded'' variables pubs =
       map snd (filter (\<lambda>(t, p). t = ''participantAdded'') pubs)"
  by (simp add: eventCreated_filter_def participantAdded_filter_def received_def
      map_of_Subscription)

theorem empty_user_id_receives_all_witness:
  "[''user_id'' \<mapsto> JStr ''''] ''user_id'' = Some (JStr '''') \<and>
   eventCreated_filter [''eventCreated'' \<mapsto> party_input] [''user_id'' \<mapsto> JStr ''''] = Inr True \<and>
   party_input ''user_id'' = Some (JStr ''7'') \<and>
   received ''eventCreated'' [''user_id'' \<mapsto> JStr '''']
     [(''eventCreated'', [''eventCreated'' \<mapsto> party_input])] =
     [[''eventCreated'' \<mapsto> party_input]]"
  using empty_user_id_receives_all
    [of "[''user_id'' \<mapsto> JStr '''']" "[''eventCreated'' \<mapsto> party_input]"
        "[(''eventCreated'', [''eventCreated'' \<mapsto> party_input])]"]
  by (simp add: party_input_def)

text \<open>
  C8, as the spec has it: with the \<^verbatim>\<open>user_id\<close> argument supplied the filter passes
  exactly when the payload's \<^verbatim>\<open>user_id\<close> equals it. It fails for the empty string: the
  argument is supplied, the payload's \<^verbatim>\<open>user_id\<close> is \<open>"7"\<close>, and both filters pass.
\<close>

theorem filter_rule_counterexample:
  "[''user_id'' \<mapsto> JStr ''''] ''user_id'' = Some (JStr '''') \<and>
   party_input ''user_id'' = Some (JStr ''7'') \<and>
   eventCreated_filter [''eventCreated'' \<mapsto> party_input] [''user_id'' \<mapsto> JStr ''''] = Inr True \<and>
   guest_input ''user_id'' = Some (JStr ''7'') \<and>
   participantAdded_filter [''participantAdded'' \<mapsto> guest_input] [''user_id'' \<mapsto> JStr ''''] = Inr True"
  by (simp add: eventCreated_filter_def participantAdded_filter_def party_input_def guest_input_def)

text \<open>
  C8, amended. When the \<^verbatim>\<open>user_id\<close> argument is absent, null or the empty string, both
  filters pass every payload. When it is a non-empty string \<open>U\<close>, the filter of a topic
  passes a payload carrying a record under the topic's key exactly when that record's
  \<^verbatim>\<open>user_id\<close> is the string \<open>U\<close>.
\<close>

theorem filter_rule:
  "(variables ''user_id'' = None \<or> variables ''user_id'' = Some JNull \<or>
    variables ''user_id'' = Some (JStr '''') \<longrightarrow>
      eventCreated_filter payload variables = Inr True \<and>
      participantAdded_filter payload variables = Inr True)
   \<and> (variables ''user_id'' = Some (JStr U) \<and> U \<noteq> '''' \<longrightarrow>
        (payload ''eventCreated'' = Some e \<longrightarrow>
           eventCreated_filter payload variables = Inr (e ''user_id'' = Some (JStr U)))
      \<and> (payload ''participantAdded'' = Some p \<longrightarrow>
           participantAdded_filter payload variables = Inr (p ''user_id'' = Some (JStr U))))"
  by (auto simp: eventCreated_filter_def participantAdded_filter_def strict_eq_str)

theorem filter_rule_witness:
  "eventCreated_filter [''eventCreated'' \<mapsto> party_input] Map.empty = Inr True \<and>
   participantAdded_filter [''participantAdded'' \<mapsto> guest_input] Map.empty = Inr True \<and>
   eventCreated_filter [''eventCreated'' \<mapsto> party_input] [''user_id'' \<mapsto> JStr ''7''] = Inr True \<and>
   eventCreated_filter [''eventCreated'' \<mapsto> party_input] [''user_id'' \<mapsto> JStr ''8''] = Inr False \<and>
   participantAdded_filter [''participantAdded'' \<mapsto> guest_input] [''user_id'' \<mapsto> JStr ''7''] = Inr True \<and>
   participantAdded_filter [''participantAdded'' \<mapsto> guest_input] [''user_id'' \<mapsto> JStr ''8''] = Inr False"
  using filter_rule [of Map.empty "[''eventCreated'' \<mapsto> party_input]" "''''" party_input guest_input]
    filter_rule [of Map.empty "[''participantAdded'' \<mapsto> guest_input]" "''''" party_input guest_input]
    filter_rule [of "[''user_id'' \<mapsto> JStr ''7'']" "[''eventCreated'' \<mapsto> party_input]" "''7''" party_input guest_input]
    filter_rule [of "[''user_id'' \<mapsto> JStr ''8'']" "[''eventCreated'' \<mapsto> party_input]" "''8''" party_input guest_input]
    filter_rule [of "[''user_id'' \<mapsto> JStr ''7'']" "[''participantAdded'' \<mapsto> guest_input]" "''7''" party_input guest_input]
    filter_rule [of "[''user_id'' \<mapsto> JStr ''8'']" "[''participantAdded'' \<mapsto> guest_input]" "''8''" party_input guest_input]
  by (simp add: party_input_def guest_input_def)

text \<open>
  C3, as the spec has it: a subscriber of \<^verbatim>\<open>eventCreated\<close> with \<^verbatim>\<open>user_id\<close> \<open>U\<close> is
  handed the notification of a later \<^verbatim>\<open>addEvent\<close> only if the input's \<^verbatim>\<open>user_id\<close> is
  \<open>U\<close>. It fails for \<open>U\<close> the empty string: the event created for user \<open>"7"\<close> is
  delivered.
\<close>

theorem eventCreated_delivery_counterexample:
  "[''user_id'' \<mapsto> JStr ''''] ''user_id'' = Some (JStr '''') \<and>
   party_input ''user_id'' = Some (JStr ''7'') \<and>
   received ''eventCreated'' [''user_id'' \<mapsto> JStr '''']
     (published_since empty_store (after (addEvent ''e1'' party_input empty_store))) =
     [[''eventCreated'' \<mapsto> spread [''id'' \<mapsto> JStr ''e1''] party_input]]"
  by (simp add: received_def map_of_Subscription published_since_def addEvent_def readData_def
      empty_store_def publish_def eventCreated_filter_def party_input_def Let_def)

text \<open>
  C3, amended. With the file readable, a subscriber of \<^verbatim>\<open>eventCreated\<close> whose \<^verbatim>\<open>user_id\<close>
  argument is a non-empty string \<open>U\<close> is handed, of what a later \<^verbatim>\<open>addEvent\<close> publishes,
  the one notification carrying the new event if the input's \<^verbatim>\<open>user_id\<close> is \<open>U\<close>, and
  nothing otherwise.
\<close>

theorem eventCreated_delivery:
  "data_json w = Some d \<Longrightarrow> variables ''user_id'' = Some (JStr U) \<Longrightarrow> U \<noteq> '''' \<Longrightarrow>
   received ''eventCreated'' variables (published_since w (after (addEvent nanoid data w))) =
     (if data ''user_id'' = Some (JStr U)
      then [[''eventCreated'' \<mapsto> spread [''id'' \<mapsto> JStr nanoid] data]] else [])"
  by (simp add: received_def map_of_Subscription published_since_def addEvent_def readData_def
      publish_def eventCreated_filter_def strict_eq_str spread_other Let_def)

theorem eventCreated_delivery_witness:
  "data_json empty_store = Some \<lparr>users = [], events = [], locations = [], participants = []\<rparr> \<and>
   received ''eventCreated'' [''user_id'' \<mapsto> JStr ''7'']
     (published_since empty_store (after (addEvent ''e1'' party_input empty_store))) =
     [[''eventCreated'' \<mapsto> spread [''id'' \<mapsto> JStr ''e1''] party_input]] \<and>
   received ''eventCreated'' [''user_id'' \<mapsto> JStr ''8'']
     (published_since empty_store (after (addEvent ''e1'' party_input empty_store))) = []"
  using eventCreated_delivery [of empty_store "\<lparr>users = [], events = [], locations = [], participants = []\<rparr>"
      "[''user_id'' \<mapsto> JStr ''7'']" "''7''" "''e1''" party_input]
    eventCreated_delivery [of empty_store "\<lparr>users = [], events = [], locations = [], participants = []\<rparr>"
      "[''user_id'' \<mapsto> JStr ''8'']" "''8''" "''e1''" party_input]
  by (simp add: empty_store_def party_input_def)

section \<open>Updates\<close>

text \<open>
  The not-found branch of the update resolvers: when no record of the collection has an
  id that \<^verbatim>\<open>===\<close> \<^verbatim>\<open>parseInt(id)\<close>, the call throws \<open>... not found\<close>, the parsed document
  is as it was read, and the world is the one before the call.
\<close>

lemma update_not_found_branch:
  "data_json w = Some d \<Longrightarrow>
   ((\<forall>user \<in> set (users d). \<not> strict_eq (user ''id'') (Some (parseInt id'))) \<longrightarrow>
      updateUser id' data w =
        \<lparr>returned = Inl (Error ''User not found''), jsonData = Some d, after = w\<rparr>) \<and>
   ((\<forall>event \<in> set (events d). \<not> strict_eq (event ''id'') (Some (parseInt id'))) \<longrightarrow>
      updateEvent id' data w =
        \<lparr>returned = Inl (Error ''Event not found''), jsonData = Some d, after = w\<rparr>) \<and>
   ((\<forall>location \<in> set (locations d). \<not> strict_eq (location ''id'') (Some (parseInt id'))) \<longrightarrow>
      updateLocation id' data w =
        \<lparr>returned = Inl (Error ''Location not found''), jsonData = Some d, after = w\<rparr>) \<and>
   ((\<forall>participant \<in> set (participants d).
        \<not> strict_eq (participant ''id'') (Some (parseInt id'))) \<longrightarrow>
      updateParticipant id' data w =
        \<lparr>returned = Inl (Error ''Participant not found''), jsonData = Some d, after = w\<rparr>)"
  by (simp add: updateUser_unfold updateEvent_unfold updateLocation_unfold
      updateParticipant_unfold findIndex_none)

text \<open>
  C4. An update with an id that matches no record is to fail with a not-found error and
  change nothing. The store holds one event, whose id is the number 1, and \<^verbatim>\<open>updateEvent\<close>
  is called with the id \<open>"1abc"\<close>. No record has that id, and the query \<^verbatim>\<open>event\<close> finds
  none under it; but \<^verbatim>\<open>parseInt("1abc")\<close> is 1, so the resolver takes the event with id
  1, returns it with the patch spread over it and publishes it on \<^verbatim>\<open>eventUpdated\<close>.
\<close>

theorem updateEvent_foreign_id_succeeds:
  "event1 ''id'' = Some (JNum 1) \<and>
   Query_events numbered_store = Inr [event1] \<and>
   Query_event ''1abc'' numbered_store = Inr None \<and>
   returned (updateEvent ''1abc'' retitle_patch numbered_store) =
     Inr (spread event1 retitle_patch) \<and>
   spread event1 retitle_patch ''title'' = Some (JStr ''Changed'') \<and>
   published_since numbered_store (after (updateEvent ''1abc'' retitle_patch numbered_store)) =
     [(''eventUpdated'', [''eventUpdated'' \<mapsto> spread event1 retitle_patch])]"
proof -
  have d: "data_json numbered_store =
     Some \<lparr>users = [user1], events = [event1], locations = [location1],
           participants = [participant1]\<rparr>"
    by (simp add: numbered_store_def)
  have f: "findIndex (\<lambda>event. strict_eq (event ''id'') (Some (parseInt ''1abc''))) [event1] = 0"
    by (simp add: findIndex_def parseInt_1abc event1_def)
  have q: "Query_events numbered_store = Inr [event1]"
    "Query_event ''1abc'' numbered_store = Inr None"
    by (simp_all add: Query_events_def Query_event_def readData_def d event1_def)
  have e: "event1 ''id'' = Some (JNum 1)"
    "spread event1 retitle_patch ''title'' = Some (JStr ''Changed'')"
    by (simp_all add: event1_def spread_def retitle_patch_def)
  from q e show ?thesis
    by (simp add: updateEvent_unfold [OF d] f publish_simps)
qed

text \<open>
  C9. \<^verbatim>\<open>updateLocationInput\<close> and \<^verbatim>\<open>updateParticipantInput\<close> admit a patch that sets
  \<^verbatim>\<open>id\<close>. When such an update succeeds with a patch whose \<^verbatim>\<open>id\<close> is \<open>v\<close>, the record
  returned has id \<open>v\<close>: it is the spread of the patch over the record located by the id
  argument, and it replaces that record in the collection. In the witness the record is
  located by \<open>"1"\<close> and comes back with id \<open>"zzz"\<close>.
\<close>

theorem update_overwrites_id:
  "conforms updateLocationInput [''id'' \<mapsto> JStr s] \<and>
   conforms updateParticipantInput [''id'' \<mapsto> JStr s] \<and>
   (data_json w = Some d \<and> data ''id'' = Some v \<and>
    returned (updateLocation id' data w) = Inr r \<longrightarrow>
      r ''id'' = Some v \<and>
      (\<exists>i. i < length (locations d) \<and>
           strict_eq ((locations d ! i) ''id'') (Some (parseInt id')) \<and>
           r = spread (locations d ! i) data \<and>
           jsonData (updateLocation id' data w) =
             Some (d\<lparr>locations := (locations d)[i := r]\<rparr>))) \<and>
   (data_json w = Some d \<and> data ''id'' = Some v \<and>
    returned (updateParticipant id' data w) = Inr r \<longrightarrow>
      r ''id'' = Some v \<and>
      (\<exists>i. i < length (participants d) \<and>
           strict_eq ((participants d ! i) ''id'') (Some (parseInt id')) \<and>
           r = spread (participants d ! i) data \<and>
           jsonData (updateParticipant id' data w) =
             Some (d\<lparr>participants := (participants d)[i := r]\<rparr>)))"
proof (intro conjI impI)
  show "conforms updateLocationInput [''id'' \<mapsto> JStr s]"
    by (simp add: conforms_def updateLocationInput_def)
  show "conforms updateParticipantInput [''id'' \<mapsto> JStr s]"
    by (simp add: conforms_def updateParticipantInput_def)
next
  let ?p = "\<lambda>location. strict_eq (location ''id'') (Some (parseInt id'))"
  assume a: "data_json w = Some d \<and> data ''id'' = Some v \<and>
    returned (updateLocation id' data w) = Inr r"
  then have d: "data_json w = Some d" by simp
  from a have ne: "findIndex ?p (locations d) \<noteq> - 1"
    by (auto simp: updateLocation_unfold [OF d] split: if_splits)
  with a have r: "r = spread (locations d ! nat (findIndex ?p (locations d))) data"
    by (simp add: updateLocation_unfold [OF d])
  with a show "r ''id'' = Some v" by (simp add: spread_patch)
  from a ne r findIndex_hit [OF ne]
  show "\<exists>i. i < length (locations d) \<and>
           strict_eq ((locations d ! i) ''id'') (Some (parseInt id')) \<and>
           r = spread (locations d ! i) data \<and>
           jsonData (updateLocation id' data w) =
             Some (d\<lparr>locations := (locations d)[i := r]\<rparr>)"
    by (intro exI [of _ "nat (findIndex ?p (locations d))"]) (simp add: updateLocation_unfold [OF d])
next
  let ?p = "\<lambda>participant. strict_eq (participant ''id'') (Some (parseInt id'))"
  assume a: "data_json w = Some d \<and> data ''id'' = Some v \<and>
    returned (updateParticipant id' data w) = Inr r"
  then have d: "data_json w = Some d" by simp
  from a have ne: "findIndex ?p (participants d) \<noteq> - 1"
    by (auto simp: updateParticipant_unfold [OF d] split: if_splits)
  with a have r: "r = spread (participants d ! nat (findIndex ?p (participants d))) data"
    by (simp add: updateParticipant_unfold [OF d])
  with a show "r ''id'' = Some v" by (simp add: spread_patch)
  from a ne r findIndex_hit [OF ne]
  show "\<exists>i. i < length (participants d) \<and>
           strict_eq ((participants d ! i) ''id'') (Some (parseInt id')) \<and>
           r = spread (participants d ! i) data \<and>
           jsonData (updateParticipant id' data w) =
             Some (d\<lparr>participants := (participants d)[i := r]\<rparr>)"
    by (intro exI [of _ "nat (findIndex ?p (participants d))"])
      (simp add: updateParticipant_unfold [OF d])
qed

theorem update_overwrites_id_witness:
  "data_json numbered_store =
     Some \<lparr>users = [user1], events = [event1], locations = [location1],
           participants = [participant1]\<rparr> \<and>
   rename_patch ''id'' = Some (JStr ''zzz'') \<and>
   location1 ''id'' = Some (JNum 1) \<and>
   returned (updateLocation ''1'' rename_patch numbered_store) =
     Inr (spread location1 rename_patch) \<and>
   spread location1 rename_patch ''id'' = Some (JStr ''zzz'') \<and>
   participant1 ''id'' = Some (JNum 1) \<and>
   returned (updateParticipant ''1'' rename_patch numbered_store) =
     Inr (spread participant1 rename_patch) \<and>
   spread participant1 rename_patch ''id'' = Some (JStr ''zzz'')"
proof -
  have d: "data_json numbered_store =
     Some \<lparr>users = [user1], events = [event1], locations = [location1],
           participants = [participant1]\<rparr>"
    by (simp add: numbered_store_def)
  have l: "returned (updateLocation ''1'' rename_patch numbered_store) =
     Inr (spread location1 rename_patch)"
    by (simp add: updateLocation_unfold [OF d] numbered_find)
  have p: "returned (updateParticipant ''1'' rename_patch numbered_store) =
     Inr (spread participant1 rename_patch)"
    by (simp add: updateParticipant_unfold [OF d] numbered_find)
  have v: "rename_patch ''id'' = Some (JStr ''zzz'')"
    by (simp add: rename_patch_def)
  from update_overwrites_id [of "''zzz''" numbered_store _ rename_patch "JStr ''zzz''" "''1''"
      "spread location1 rename_patch"] d v l
  have "spread location1 rename_patch ''id'' = Some (JStr ''zzz'')" by simp
  moreover
  from update_overwrites_id [of "''zzz''" numbered_store _ rename_patch "JStr ''zzz''" "''1''"
      "spread participant1 rename_patch"] d v p
  have "spread participant1 rename_patch ''id'' = Some (JStr ''zzz'')" by simp
  ultimately show ?thesis using d v l p
    by (simp add: location1_def participant1_def)
qed

section \<open>What a later request sees\<close>

text \<open>
  C1, as the spec has it: \<^verbatim>\<open>create\<close> followed by \<^verbatim>\<open>getById\<close> of the new id returns the
  new record. On the empty store \<^verbatim>\<open>addLocation\<close> returns the input with the id drawn, and
  the queries that follow find no record under that id and list no location: the
  resolver appended to the object it parsed and did not write the file.
\<close>

theorem create_then_get_counterexample:
  "conforms createLocationInput hq_input \<and>
   returned (addLocation ''abc'' hq_input empty_store) = Inr (hq_input(''id'' \<mapsto> JStr ''abc'')) \<and>
   Query_location ''abc'' (after (addLocation ''abc'' hq_input empty_store)) = Inr None \<and>
   Query_locations (after (addLocation ''abc'' hq_input empty_store)) = Inr []"
proof -
  have d: "data_json empty_store =
      Some \<lparr>users = [], events = [], locations = [], participants = []\<rparr>"
    by (simp add: empty_store_def)
  have c: "conforms createLocationInput hq_input"
    by (simp add: conforms_def createLocationInput_def hq_input_def)
  have "hq_input ''id'' = None" by (simp add: hq_input_def)
  then have "spread [''id'' \<mapsto> JStr ''abc''] hq_input = hq_input(''id'' \<mapsto> JStr ''abc'')"
    by (rule spread_fresh_id)
  with c show ?thesis
    by (simp add: addLocation_unfold [OF d] Query_publish)
      (simp add: Query_location_def Query_locations_def readData_def empty_store_def)
qed

text \<open>
  C1, amended. With the file readable and an input that fits the create input type, the
  create resolver returns the input fields plus the id assigned, appends that record to
  the collection of the document parsed for the request and publishes it once on the
  Created topic. The file is not written: the queries that follow answer as before the
  call.
\<close>

theorem create_returns_record_unpersisted:
  "data_json w = Some d \<Longrightarrow>
   (conforms createUserInput data \<longrightarrow>
      returned (addUser data w) = Inr (data(''id'' \<mapsto> JStr (String_num (length (users d) + 1)))) \<and>
      jsonData (addUser data w) = Some (d\<lparr>users := users d @ [data(''id'' \<mapsto> JStr (String_num (length (users d) + 1)))]\<rparr>) \<and>
      published_since w (after (addUser data w)) =
        [(''userCreated'', [''userCreated'' \<mapsto> data(''id'' \<mapsto> JStr (String_num (length (users d) + 1)))])] \<and>
      data_json (after (addUser data w)) = Some d \<and>
      Query_users (after (addUser data w)) = Query_users w \<and>
      Query_user i (after (addUser data w)) = Query_user i w) \<and>
   (conforms createEventInput data \<longrightarrow>
      returned (addEvent nanoid data w) = Inr (data(''id'' \<mapsto> JStr (nanoid))) \<and>
      jsonData (addEvent nanoid data w) = Some (d\<lparr>events := events d @ [data(''id'' \<mapsto> JStr (nanoid))]\<rparr>) \<and>
      published_since w (after (addEvent nanoid data w)) =
        [(''eventCreated'', [''eventCreated'' \<mapsto> data(''id'' \<mapsto> JStr (nanoid))])] \<and>
      data_json (after (addEvent nanoid data w)) = Some d \<and>
      Query_events (after (addEvent nanoid data w)) = Query_events w \<and>
      Query_event i (after (addEvent nanoid data w)) = Query_event i w) \<and>
   (conforms createLocationInput data \<longrightarrow>
      returned (addLocation nanoid data w) = Inr (data(''id'' \<mapsto> JStr (nanoid))) \<and>
      jsonData (addLocation nanoid data w) = Some (d\<lparr>locations := locations d @ [data(''id'' \<mapsto> JStr (nanoid))]\<rparr>) \<and>
      published_since w (after (addLocation nanoid data w)) =
        [(''locationCreated'', [''locationCreated'' \<mapsto> data(''id'' \<mapsto> JStr (nanoid))])] \<and>
      data_json (after (addLocation nanoid data w)) = Some d \<and>
      Query_locations (after (addLocation nanoid data w)) = Query_locations w \<and>
      Query_location i (after (addLocation nanoid data w)) = Query_location i w) \<and>
   (conforms createParticipantInput data \<longrightarrow>
      returned (addParticipant nanoid data w) = Inr (data(''id'' \<mapsto> JStr (nanoid))) \<and>
      jsonData (addParticipant nanoid data w) = Some (d\<lparr>participants := participants d @ [data(''id'' \<mapsto> JStr (nanoid))]\<rparr>) \<and>
      published_since w (after (addParticipant nanoid data w)) =
        [(''participantAdded'', [''participantAdded'' \<mapsto> data(''id'' \<mapsto> JStr (nanoid))])] \<and>
      data_json (after (addParticipant nanoid data w)) = Some d \<and>
      Query_participants (after (addParticipant nanoid data w)) = Query_participants w \<and>
      Query_participant i (after (addParticipant nanoid data w)) = Query_participant i w)"
proof -
  assume d: "data_json w = Some d"
  have u: "conforms createUserInput data \<Longrightarrow>
      spread [''id'' \<mapsto> v] data = data(''id'' \<mapsto> v)" for v
    by (rule spread_fresh_id, erule conforms_undeclared) (simp add: createUserInput_def)
  have e: "conforms createEventInput data \<Longrightarrow>
      spread [''id'' \<mapsto> v] data = data(''id'' \<mapsto> v)" for v
    by (rule spread_fresh_id, erule conforms_undeclared) (simp add: createEventInput_def)
  have l: "conforms createLocationInput data \<Longrightarrow>
      spread [''id'' \<mapsto> v] data = data(''id'' \<mapsto> v)" for v
    by (rule spread_fresh_id, erule conforms_undeclared) (simp add: createLocationInput_def)
  have p: "conforms createParticipantInput data \<Longrightarrow>
      spread [''id'' \<mapsto> v] data = data(''id'' \<mapsto> v)" for v
    by (rule spread_fresh_id, erule conforms_undeclared)
      (simp add: createParticipantInput_def)
  show ?thesis
    by (simp add: addUser_unfold [OF d] addEvent_unfold [OF d] addLocation_unfold [OF d]
        addParticipant_unfold [OF d] publish_simps Query_publish d u e l p)
qed

theorem create_returns_record_unpersisted_witness:
  "data_json alice_store =
     Some \<lparr>users = [alice], events = [], locations = [], participants = []\<rparr> \<and>
   conforms createUserInput bob_input \<and>
   returned (addUser bob_input alice_store) = Inr (bob_input(''id'' \<mapsto> JStr ''2'')) \<and>
   Query_users (after (addUser bob_input alice_store)) = Inr [alice] \<and>
   conforms createEventInput party_input \<and>
   returned (addEvent ''e1'' party_input alice_store) = Inr (party_input(''id'' \<mapsto> JStr ''e1'')) \<and>
   Query_event ''e1'' (after (addEvent ''e1'' party_input alice_store)) = Inr None \<and>
   conforms createLocationInput hq_input \<and>
   returned (addLocation ''l1'' hq_input alice_store) = Inr (hq_input(''id'' \<mapsto> JStr ''l1'')) \<and>
   Query_location ''l1'' (after (addLocation ''l1'' hq_input alice_store)) = Inr None \<and>
   conforms createParticipantInput guest_input \<and>
   returned (addParticipant ''p1'' guest_input alice_store) =
     Inr (guest_input(''id'' \<mapsto> JStr ''p1'')) \<and>
   Query_participant ''p1'' (after (addParticipant ''p1'' guest_input alice_store)) = Inr None"
proof -
  have d: "data_json alice_store =
     Some \<lparr>users = [alice], events = [], locations = [], participants = []\<rparr>"
    by (simp add: alice_store_def)
  have c: "conforms createUserInput bob_input" "conforms createEventInput party_input"
    "conforms createLocationInput hq_input" "conforms createParticipantInput guest_input"
    by (simp_all add: conforms_def createUserInput_def createEventInput_def
        createLocationInput_def createParticipantInput_def bob_input_def party_input_def
        hq_input_def guest_input_def)
  have n: "String_num (Suc (Suc 0)) = ''2''" by code_simp
  have q: "Query_users alice_store = Inr [alice]" "Query_event ''e1'' alice_store = Inr None"
    "Query_location ''l1'' alice_store = Inr None"
    "Query_participant ''p1'' alice_store = Inr None"
    by (simp_all add: Query_users_def Query_event_def Query_location_def
        Query_participant_def readData_def alice_store_def)
  from create_returns_record_unpersisted [OF d, of bob_input "''e1''" "''e1''"]
    create_returns_record_unpersisted [OF d, of party_input "''e1''" "''e1''"]
    create_returns_record_unpersisted [OF d, of hq_input "''l1''" "''l1''"]
    create_returns_record_unpersisted [OF d, of guest_input "''p1''" "''p1''"]
  show ?thesis using d c q by (simp add: n)
qed

text \<open>
  C5, as the spec has it: \<^verbatim>\<open>deleteAll\<close> leaves the collection empty and a second call
  returns count 0. On the store with one user the first call returns count 1, the query
  that follows still lists the user, and the second call returns count 1 again.
\<close>

theorem deleteAll_twice_counterexample:
  "Query_users alice_store = Inr [alice] \<and>
   returned (deleteAllUsers alice_store) = Inr [''count'' \<mapsto> JNum 1] \<and>
   Query_users (after (deleteAllUsers alice_store)) = Inr [alice] \<and>
   returned (deleteAllUsers (after (deleteAllUsers alice_store))) = Inr [''count'' \<mapsto> JNum 1]"
  by (simp add: deleteAll_world)
    (simp add: deleteAllUsers_def Query_users_def readData_def alice_store_def Let_def)

text \<open>
  C5, amended. With the file readable, \<^verbatim>\<open>deleteAll\<close> does not fail: it returns the size
  of the collection in the file and empties the collection of the document parsed for
  the request. The file is not written and nothing else changes, so a second call does
  what the first did and returns the same count.
\<close>

theorem deleteAll_counts_unpersisted:
  "data_json w = Some d \<Longrightarrow>
   deleteAllUsers w =
     \<lparr>returned = Inr [''count'' \<mapsto> JNum (of_nat (length (users d)))],
      jsonData = Some (d\<lparr>users := []\<rparr>), after = w\<rparr> \<and>
   deleteAllUsers (after (deleteAllUsers w)) = deleteAllUsers w \<and>
   deleteAllEvents w =
     \<lparr>returned = Inr [''count'' \<mapsto> JNum (of_nat (length (events d)))],
      jsonData = Some (d\<lparr>events := []\<rparr>), after = w\<rparr> \<and>
   deleteAllEvents (after (deleteAllEvents w)) = deleteAllEvents w \<and>
   deleteAllLocations w =
     \<lparr>returned = Inr [''count'' \<mapsto> JNum (of_nat (length (locations d)))],
      jsonData = Some (d\<lparr>locations := []\<rparr>), after = w\<rparr> \<and>
   deleteAllLocations (after (deleteAllLocations w)) = deleteAllLocations w \<and>
   deleteAllParticipants w =
     \<lparr>returned = Inr [''count'' \<mapsto> JNum (of_nat (length (participants d)))],
      jsonData = Some (d\<lparr>participants := []\<rparr>), after = w\<rparr> \<and>
   deleteAllParticipants (after (deleteAllParticipants w)) = deleteAllParticipants w"
  by (simp add: deleteAll_world)
    (simp add: deleteAllUsers_unfold deleteAllEvents_unfold deleteAllLocations_unfold
      deleteAllParticipants_unfold)

theorem deleteAll_counts_unpersisted_witness:
  "data_json numbered_store =
     Some \<lparr>users = [user1], events = [event1], locations = [location1],
           participants = [participant1]\<rparr> \<and>
   returned (deleteAllUsers numbered_store) = Inr [''count'' \<mapsto> JNum 1] \<and>
   jsonData (deleteAllUsers numbered_store) =
     Some \<lparr>users = [], events = [event1], locations = [location1],
           participants = [participant1]\<rparr> \<and>
   after (deleteAllUsers numbered_store) = numbered_store \<and>
   returned (deleteAllEvents numbered_store) = Inr [''count'' \<mapsto> JNum 1] \<and>
   returned (deleteAllLocations numbered_store) = Inr [''count'' \<mapsto> JNum 1] \<and>
   returned (deleteAllParticipants numbered_store) = Inr [''count'' \<mapsto> JNum 1] \<and>
   returned (deleteAllEvents empty_store) = Inr [''count'' \<mapsto> JNum 0]"
proof -
  have d: "data_json numbered_store =
     Some \<lparr>users = [user1], events = [event1], locations = [location1],
           participants = [participant1]\<rparr>"
    by (simp add: numbered_store_def)
  have e: "data_json empty_store =
     Some \<lparr>users = [], events = [], locations = [], participants = []\<rparr>"
    by (simp add: empty_store_def)
  from deleteAll_counts_unpersisted [OF d] deleteAll_counts_unpersisted [OF e]
  show ?thesis using d by simp
qed

text \<open>
  C6, as the spec has it: a successful \<^verbatim>\<open>delete\<close> removes the record from the persisted
  collection. On the store whose event has the number 1 as id, \<^verbatim>\<open>deleteEvent\<close> with id
  \<open>"1"\<close> succeeds and returns the event, and the query that follows still lists it.
\<close>

theorem delete_then_list_counterexample:
  "Query_events numbered_store = Inr [event1] \<and>
   returned (deleteEvent ''1'' numbered_store) = Inr event1 \<and>
   Query_events (after (deleteEvent ''1'' numbered_store)) = Inr [event1]"
proof -
  have d: "data_json numbered_store =
     Some \<lparr>users = [user1], events = [event1], locations = [location1],
           participants = [participant1]\<rparr>"
    by (simp add: numbered_store_def)
  have q: "Query_events numbered_store = Inr [event1]"
    by (simp add: Query_events_def readData_def d)
  then show ?thesis
    by (simp add: deleteEvent_unfold [OF d] numbered_find Query_publish)
qed

text \<open>
  C6, amended. With the file readable, a successful \<^verbatim>\<open>delete\<close> returns a record of the
  collection as it stood before the removal, removes exactly that record from the
  collection of the document parsed for the request, and publishes it once on the
  Deleted topic. The file is not written: the collection read by the queries that follow
  is the one before the call, and a lookup by id answers as before the call.
\<close>

theorem delete_returns_snapshot_unpersisted:
  "data_json w = Some d \<Longrightarrow>
   (returned (deleteUser id' w) = Inr r \<longrightarrow>
      (\<exists>i. i < length (users d) \<and> users d ! i = r \<and>
           jsonData (deleteUser id' w) =
             Some (d\<lparr>users := take i (users d) @ drop (Suc i) (users d)\<rparr>)) \<and>
      published_since w (after (deleteUser id' w)) =
        [(''userDeleted'', [''userDeleted'' \<mapsto> r])] \<and>
      data_json (after (deleteUser id' w)) = Some d \<and>
      Query_users (after (deleteUser id' w)) = Inr (users d) \<and>
      Query_user i' (after (deleteUser id' w)) = Query_user i' w) \<and>
   (returned (deleteEvent id' w) = Inr r \<longrightarrow>
      (\<exists>i. i < length (events d) \<and> events d ! i = r \<and>
           jsonData (deleteEvent id' w) =
             Some (d\<lparr>events := take i (events d) @ drop (Suc i) (events d)\<rparr>)) \<and>
      published_since w (after (deleteEvent id' w)) =
        [(''eventDeleted'', [''eventDeleted'' \<mapsto> r])] \<and>
      data_json (after (deleteEvent id' w)) = Some d \<and>
      Query_events (after (deleteEvent id' w)) = Inr (events d) \<and>
      Query_event i' (after (deleteEvent id' w)) = Query_event i' w) \<and>
   (returned (deleteLocation id' w) = Inr r \<longrightarrow>
      (\<exists>i. i < length (locations d) \<and> locations d ! i = r \<and>
           jsonData (deleteLocation id' w) =
             Some (d\<lparr>locations := take i (locations d) @ drop (Suc i) (locations d)\<rparr>)) \<and>
      published_since w (after (deleteLocation id' w)) =
        [(''locationDeleted'', [''locationDeleted'' \<mapsto> r])] \<and>
      data_json (after (deleteLocation id' w)) = Some d \<and>
      Query_locations (after (deleteLocation id' w)) = Inr (locations d) \<and>
      Query_location i' (after (deleteLocation id' w)) = Query_location i' w) \<and>
   (returned (deleteParticipant id' w) = Inr r \<longrightarrow>
      (\<exists>i. i < length (participants d) \<and> participants d ! i = r \<and>
           jsonData (deleteParticipant id' w) =
             Some (d\<lparr>participants := take i (participants d) @ drop (Suc i) (participants d)\<rparr>)) \<and>
      published_since w (after (deleteParticipant id' w)) =
        [(''participantDeleted'', [''participantDeleted'' \<mapsto> r])] \<and>
      data_json (after (deleteParticipant id' w)) = Some d \<and>
      Query_participants (after (deleteParticipant id' w)) = Inr (participants d) \<and>
      Query_participant i' (after (deleteParticipant id' w)) = Query_participant i' w)"
  using deleteUser_found [of w d id' r i'] deleteEvent_found [of w d id' r i']
    deleteLocation_found [of w d id' r i'] deleteParticipant_found [of w d id' r i']
  by blast

theorem delete_returns_snapshot_unpersisted_witness:
  "data_json numbered_store =
     Some \<lparr>users = [user1], events = [event1], locations = [location1],
           participants = [participant1]\<rparr> \<and>
   returned (deleteUser ''1'' numbered_store) = Inr user1 \<and>
   Query_users (after (deleteUser ''1'' numbered_store)) = Inr [user1] \<and>
   published_since numbered_store (after (deleteUser ''1'' numbered_store)) =
     [(''userDeleted'', [''userDeleted'' \<mapsto> user1])] \<and>
   returned (deleteEvent ''1'' numbered_store) = Inr event1 \<and>
   Query_events (after (deleteEvent ''1'' numbered_store)) = Inr [event1] \<and>
   returned (deleteLocation ''1'' numbered_store) = Inr location1 \<and>
   Query_locations (after (deleteLocation ''1'' numbered_store)) = Inr [location1] \<and>
   returned (deleteParticipant ''1'' numbered_store) = Inr participant1 \<and>
   Query_participants (after (deleteParticipant ''1'' numbered_store)) = Inr [participant1]"
proof -
  have d: "data_json numbered_store =
     Some \<lparr>users = [user1], events = [event1], locations = [location1],
           participants = [participant1]\<rparr>"
    by (simp add: numbered_store_def)
  have r: "returned (deleteUser ''1'' numbered_store) = Inr user1"
    "returned (deleteEvent ''1'' numbered_store) = Inr event1"
    "returned (deleteLocation ''1'' numbered_store) = Inr location1"
    "returned (deleteParticipant ''1'' numbered_store) = Inr participant1"
    by (simp_all add: deleteUser_unfold [OF d] deleteEvent_unfold [OF d]
        deleteLocation_unfold [OF d] deleteParticipant_unfold [OF d] numbered_find)
  from delete_returns_snapshot_unpersisted [OF d, of "''1''" user1]
    delete_returns_snapshot_unpersisted [OF d, of "''1''" event1]
    delete_returns_snapshot_unpersisted [OF d, of "''1''" location1]
    delete_returns_snapshot_unpersisted [OF d, of "''1''" participant1]
  show ?thesis using d r by simp
qed

end
